theory Spec2Isabelle
  imports Main
begin

section \<open>Severity levels (log/slog) and the level-name parser (level.go)\<close>

text \<open>
  \<^verbatim>\<open>slog.Level\<close> is a Go \<^verbatim>\<open>int\<close>; the four named levels are the constants of the
  standard library. No arithmetic of the package leaves the range of a machine integer
  (the only sum is the constant \<^verbatim>\<open>slog.LevelError+4\<close>), so levels are modelled as \<open>int\<close>.
\<close>

type_synonym level = int

definition LevelDebug :: level where "LevelDebug = - 4"
definition LevelInfo :: level where "LevelInfo = 0"
definition LevelWarn :: level where "LevelWarn = 4"
definition LevelError :: level where "LevelError = 8"

text \<open>
  A Go string is read rune by rune by \<^verbatim>\<open>strings.ToUpper\<close>; a string is modelled as the
  list of its code points (an invalid byte is the rune U+FFFD, as \<^verbatim>\<open>strings.Map\<close> sees it).
  \<open>runes\<close> turns an ASCII literal into that list.
\<close>

type_synonym rune = nat

definition runes :: "string \<Rightarrow> rune list" where
  "runes s = map of_char s"

text \<open>
  \<^verbatim>\<open>unicode.ToUpper\<close>: the ASCII branch is written out in the standard library; beyond
  ASCII it looks the rune up in the Unicode case tables, which are the parameter \<open>tbl\<close>.
\<close>

definition unicode_ToUpper :: "(rune \<Rightarrow> rune) \<Rightarrow> rune \<Rightarrow> rune" where
  "unicode_ToUpper tbl r =
     (if r \<le> 127 then (if 97 \<le> r \<and> r \<le> 122 then r - 32 else r) else tbl r)"

definition strings_ToUpper :: "(rune \<Rightarrow> rune) \<Rightarrow> rune list \<Rightarrow> rune list" where
  "strings_ToUpper tbl s = map (unicode_ToUpper tbl) s"

text \<open>\<^verbatim>\<open>ParseLevel\<close> of level.go: a switch on the upper-cased name, INFO by default.\<close>

definition ParseLevel :: "(rune \<Rightarrow> rune) \<Rightarrow> rune list \<Rightarrow> level" where
  "ParseLevel tbl s =
     (let u = strings_ToUpper tbl s in
      if u = runes ''INFO'' then LevelInfo
      else if u = runes ''WARN'' then LevelWarn
      else if u = runes ''ERROR'' then LevelError
      else if u = runes ''DEBUG'' then LevelDebug
      else LevelInfo)"

text \<open>
  The specification's reading of "case-insensitive exact match": the name equals the
  level name once its ASCII letters are upper-cased.
\<close>

definition ascii_upper :: "rune \<Rightarrow> rune" where
  "ascii_upper r = (if 97 \<le> r \<and> r \<le> 122 then r - 32 else r)"

definition matches_name :: "rune list \<Rightarrow> string \<Rightarrow> bool" where
  "matches_name s name = (map ascii_upper s = runes name)"

definition spec_ParseLevel :: "rune list \<Rightarrow> level" where
  "spec_ParseLevel s =
     (if matches_name s ''INFO'' then LevelInfo
      else if matches_name s ''WARN'' then LevelWarn
      else if matches_name s ''ERROR'' then LevelError
      else if matches_name s ''DEBUG'' then LevelDebug
      else LevelInfo)"

text \<open>
  The Unicode case tables send exactly two runes beyond ASCII to an ASCII letter:
  U+0131 (dotless i) to \<open>I\<close> (73) and U+017F (long s) to \<open>S\<close> (83).
\<close>

definition unicode_table_ok :: "(rune \<Rightarrow> rune) \<Rightarrow> bool" where
  "unicode_table_ok tbl = (\<forall>r. 127 < r \<longrightarrow> 127 < tbl r \<or> tbl r = 73 \<or> tbl r = 83)"

definition go_unicode_upper :: "rune \<Rightarrow> rune" where
  "go_unicode_upper r = (if r = 305 then 73 else if r = 383 then 83 else r)"

section \<open>The structured-logging engine (log/slog), as far as the package drives it\<close>

text \<open>
  \<^verbatim>\<open>Level.String\<close> of the standard library names a level: the nearest named level below
  it, followed by the signed offset (\<^verbatim>\<open>fmt.Sprintf("%s%+d", base, val)\<close>) when that is
  not zero.
\<close>

fun decimal :: "nat \<Rightarrow> string" where
  "decimal n =
     (if n < 10 then [''0123456789'' ! n]
      else decimal (n div 10) @ [''0123456789'' ! (n mod 10)])"

declare decimal.simps [simp del]

definition fmt_plus_d :: "int \<Rightarrow> string" where
  "fmt_plus_d i = (if i < 0 then ''-'' @ decimal (nat (- i)) else ''+'' @ decimal (nat i))"

definition str :: "string \<Rightarrow> level \<Rightarrow> string" where
  "str base val = (if val = 0 then base else base @ fmt_plus_d val)"

definition Level_String :: "level \<Rightarrow> string" where
  "Level_String l =
     (if l < LevelInfo then str ''DEBUG'' (l - LevelDebug)
      else if l < LevelWarn then str ''INFO'' (l - LevelInfo)
      else if l < LevelError then str ''WARN'' (l - LevelWarn)
      else str ''ERROR'' (l - LevelError))"

text \<open>
  The variadic \<^verbatim>\<open>args ...any\<close> of a log call: the values the engine tells apart when it
  turns them into attributes (\<^verbatim>\<open>argsToAttr\<close>): a string is a key for the value after it,
  an \<^verbatim>\<open>slog.Attr\<close> stands for itself, anything else gets the key \<^verbatim>\<open>!BADKEY\<close>.
\<close>

datatype any = AString string | AInt int | ABool bool | AAttr string any

type_synonym Attr = "string \<times> any"

definition badKey :: string where "badKey = ''!BADKEY''"

fun argsToAttrs :: "any list \<Rightarrow> Attr list" where
  "argsToAttrs [] = []"
| "argsToAttrs [AString x] = [(badKey, AString x)]"
| "argsToAttrs (AString x # v # rest) = (x, v) # argsToAttrs rest"
| "argsToAttrs (AAttr k v # rest) = (k, v) # argsToAttrs rest"
| "argsToAttrs (x # rest) = (badKey, x) # argsToAttrs rest"

text \<open>
  \<^verbatim>\<open>slog.Record\<close>: level, message and attributes (time and program counter play no
  part in the package). \<^verbatim>\<open>slog.HandlerOptions\<close>: the \<^verbatim>\<open>Level\<close> field is a nilable
  \<^verbatim>\<open>Leveler\<close>, read here as the level it reports.
\<close>

record slog_Record =
  Level :: level
  Message :: string
  Attrs :: "Attr list"

record slog_HandlerOptions =
  ho_AddSource :: bool
  ho_Level :: "level option"
  ho_ReplaceAttr :: "(string list \<Rightarrow> Attr \<Rightarrow> Attr) option"

text \<open>
  An \<^verbatim>\<open>io.Writer\<close> is a reference, named by a number; the world maps each writer to the
  sequence of \<^verbatim>\<open>Write\<close> calls it has received, each one record serialised in the
  handler's encoding. The serialisation itself belongs to the engine. Writers are
  not nil, and the engine drops the error of a failed \<^verbatim>\<open>Write\<close>. A context is
  the address of a context node (see the context carrier below); the built-in handlers
  never look at it.
\<close>

type_synonym writer = nat

datatype encoding = TextEncoding | JSONEncoding

datatype entry = Entry encoding slog_Record

type_synonym world = "writer \<Rightarrow> entry list"

type_synonym Context = nat

text \<open>
  \<^verbatim>\<open>slog.Handler\<close> is an interface. Its implementations here: the two built-in handlers,
  the package's \<^verbatim>\<open>levelPrefixHandler\<close> (which embeds a handler), and any handler a caller
  brings, given by its \<^verbatim>\<open>Enabled\<close> and \<^verbatim>\<open>Handle\<close> methods.
\<close>

datatype slog_Handler =
    TextHandler writer slog_HandlerOptions
  | JSONHandler writer slog_HandlerOptions
  | levelPrefixHandler slog_Handler
  | OtherHandler "Context \<Rightarrow> level \<Rightarrow> bool" "Context \<Rightarrow> slog_Record \<Rightarrow> world \<Rightarrow> world"

definition minLevel :: "slog_HandlerOptions \<Rightarrow> level" where
  "minLevel ho = (case ho_Level ho of None \<Rightarrow> LevelInfo | Some l \<Rightarrow> l)"

text \<open>
  \<^verbatim>\<open>levelPrefixHandler\<close> declares \<^verbatim>\<open>Handle\<close> only; \<^verbatim>\<open>Enabled\<close> is promoted from the
  embedded handler.
\<close>

fun Enabled :: "slog_Handler \<Rightarrow> Context \<Rightarrow> level \<Rightarrow> bool" where
  "Enabled (TextHandler out ho) ctx l = (minLevel ho \<le> l)"
| "Enabled (JSONHandler out ho) ctx l = (minLevel ho \<le> l)"
| "Enabled (levelPrefixHandler h) ctx l = Enabled h ctx l"
| "Enabled (OtherHandler en hdl) ctx l = en ctx l"

fun Handle :: "slog_Handler \<Rightarrow> Context \<Rightarrow> slog_Record \<Rightarrow> world \<Rightarrow> world" where
  "Handle (TextHandler out ho) ctx r w = w(out := w out @ [Entry TextEncoding r])"
| "Handle (JSONHandler out ho) ctx r w = w(out := w out @ [Entry JSONEncoding r])"
| "Handle (levelPrefixHandler h) ctx r w =
     Handle h ctx (r\<lparr>Message := ''- '' @ Level_String (Level r) @ '' - '' @ Message r\<rparr>) w"
| "Handle (OtherHandler en hdl) ctx r w = hdl ctx r w"

text \<open>
  \<^verbatim>\<open>(*slog.Logger).Log\<close>: nothing happens unless the handler is enabled for the level;
  otherwise one record is built from the message and the arguments and handed to the
  handler, whose error result is dropped.
\<close>

definition slog_Log ::
  "slog_Handler \<Rightarrow> Context \<Rightarrow> level \<Rightarrow> string \<Rightarrow> any list \<Rightarrow> world \<Rightarrow> world" where
  "slog_Log h ctx l msg args w =
     (if \<not> Enabled h ctx l then w
      else Handle h ctx \<lparr>Level = l, Message = msg, Attrs = argsToAttrs args\<rparr> w)"

section \<open>The Logger\<close>

text \<open>\<^verbatim>\<open>HandlerType\<close> is a Go \<^verbatim>\<open>int\<close> with two named values.\<close>

type_synonym HandlerType = int

definition HandlerTypeJSON :: HandlerType where "HandlerTypeJSON = 0"
definition HandlerTypeText :: HandlerType where "HandlerTypeText = 1"

record Options =
  opt_Level :: level
  opt_AddLevelPrefix :: bool
  opt_HandlerType :: HandlerType
  opt_CustomHandler :: "slog_Handler option"
  opt_HandlerOptions :: "slog_HandlerOptions option"

definition DefaultOptions :: Options where
  "DefaultOptions =
     \<lparr>opt_Level = LevelInfo,
      opt_AddLevelPrefix = False,
      opt_HandlerType = HandlerTypeText,
      opt_CustomHandler = None,
      opt_HandlerOptions =
        Some \<lparr>ho_AddSource = False, ho_Level = Some LevelInfo,
              ho_ReplaceAttr = Some (\<lambda>groups a. a)\<rparr>\<rparr>"

text \<open>
  The \<^verbatim>\<open>Logger\<close> struct. \<^verbatim>\<open>slogger\<close> is an \<^verbatim>\<open>*slog.Logger\<close>, which is its handler.
  The methods have a pointer receiver: each mutator returns the updated struct.
\<close>

record Logger =
  level :: level
  shouldPreficMessageWithLevel :: bool
  handlerType :: HandlerType
  writerType :: writer
  slogger :: slog_Handler

definition newHandler :: "writer \<Rightarrow> HandlerType \<Rightarrow> slog_HandlerOptions \<Rightarrow> slog_Handler" where
  "newHandler output t ho =
     (if t = HandlerTypeJSON then JSONHandler output ho else TextHandler output ho)"

definition levelOnly :: "level \<Rightarrow> slog_HandlerOptions" where
  "levelOnly l = \<lparr>ho_AddSource = False, ho_Level = Some l, ho_ReplaceAttr = None\<rparr>"

text \<open>
  \<^verbatim>\<open>New\<close>. (It also stores the handler options it builds into the caller's
  \<^verbatim>\<open>Options\<close> value when that had none; no later step of the package reads them back.)
\<close>

definition New :: "writer \<Rightarrow> Options option \<Rightarrow> Logger" where
  "New output opts0 =
     (let opts = (case opts0 of None \<Rightarrow> DefaultOptions | Some given \<Rightarrow> given);
          ho = (case opt_HandlerOptions opts of
                  None \<Rightarrow> levelOnly (opt_Level opts)
                | Some ho \<Rightarrow> ho);
          handler = (case opt_CustomHandler opts of
                       Some h \<Rightarrow> h
                     | None \<Rightarrow> newHandler output (opt_HandlerType opts) ho);
          handler' = (if opt_AddLevelPrefix opts then levelPrefixHandler handler else handler)
      in \<lparr>level = opt_Level opts,
          shouldPreficMessageWithLevel = opt_AddLevelPrefix opts,
          handlerType = opt_HandlerType opts,
          writerType = output,
          slogger = handler'\<rparr>)"

definition SetHandler ::
  "Logger \<Rightarrow> writer \<Rightarrow> HandlerType \<Rightarrow> slog_HandlerOptions option \<Rightarrow> Logger" where
  "SetHandler logger output t opts =
     (let ho = (case opts of None \<Rightarrow> levelOnly (level logger) | Some ho \<Rightarrow> ho);
          handler = newHandler output t ho;
          handler' = (if shouldPreficMessageWithLevel logger
                      then levelPrefixHandler handler else handler)
      in logger\<lparr>slogger := handler'\<rparr>)"

definition SetOutput :: "Logger \<Rightarrow> writer \<Rightarrow> Logger" where
  "SetOutput logger output =
     SetHandler logger output (handlerType logger) (Some (levelOnly (level logger)))"

definition SetLevel :: "Logger \<Rightarrow> level \<Rightarrow> Logger" where
  "SetLevel logger l =
     (let logger' = logger\<lparr>level := l\<rparr>
      in SetHandler logger' (writerType logger') (handlerType logger') (Some (levelOnly l)))"

definition GetLevel :: "Logger \<Rightarrow> level" where
  "GetLevel logger = level logger"

definition GetHandlerType :: "Logger \<Rightarrow> HandlerType" where
  "GetHandlerType logger = handlerType logger"

definition SetCustomHandler :: "Logger \<Rightarrow> slog_Handler \<Rightarrow> Logger" where
  "SetCustomHandler logger handler =
     logger\<lparr>slogger := (if shouldPreficMessageWithLevel logger
                        then levelPrefixHandler handler else handler)\<rparr>"

text \<open>
  The leveled operations. \<^verbatim>\<open>fmt.Sprintf\<close> belongs to the standard library and is the
  parameter \<open>sprintf\<close> of the formatted forms.
\<close>

type_synonym Sprintf = "string \<Rightarrow> any list \<Rightarrow> string"

definition Log :: "Logger \<Rightarrow> Context \<Rightarrow> level \<Rightarrow> string \<Rightarrow> any list \<Rightarrow> world \<Rightarrow> world" where
  "Log logger ctx l msg args w = slog_Log (slogger logger) ctx l msg args w"

definition Logf ::
  "Sprintf \<Rightarrow> Logger \<Rightarrow> Context \<Rightarrow> level \<Rightarrow> string \<Rightarrow> any list \<Rightarrow> world \<Rightarrow> world" where
  "Logf sprintf logger ctx l format args w =
     (let formattedMsg = sprintf format args
      in slog_Log (slogger logger) ctx l formattedMsg [] w)"

definition Debug :: "Logger \<Rightarrow> Context \<Rightarrow> string \<Rightarrow> any list \<Rightarrow> world \<Rightarrow> world" where
  "Debug logger ctx msg args w = Log logger ctx LevelDebug msg args w"

definition Debugf :: "Sprintf \<Rightarrow> Logger \<Rightarrow> Context \<Rightarrow> string \<Rightarrow> any list \<Rightarrow> world \<Rightarrow> world" where
  "Debugf sprintf logger ctx format args w = Logf sprintf logger ctx LevelDebug format args w"

definition Info :: "Logger \<Rightarrow> Context \<Rightarrow> string \<Rightarrow> any list \<Rightarrow> world \<Rightarrow> world" where
  "Info logger ctx msg args w = Log logger ctx LevelInfo msg args w"

definition Infof :: "Sprintf \<Rightarrow> Logger \<Rightarrow> Context \<Rightarrow> string \<Rightarrow> any list \<Rightarrow> world \<Rightarrow> world" where
  "Infof sprintf logger ctx format args w = Logf sprintf logger ctx LevelInfo format args w"

definition Warn :: "Logger \<Rightarrow> Context \<Rightarrow> string \<Rightarrow> any list \<Rightarrow> world \<Rightarrow> world" where
  "Warn logger ctx msg args w = Log logger ctx LevelWarn msg args w"

definition Warnf :: "Sprintf \<Rightarrow> Logger \<Rightarrow> Context \<Rightarrow> string \<Rightarrow> any list \<Rightarrow> world \<Rightarrow> world" where
  "Warnf sprintf logger ctx format args w = Logf sprintf logger ctx LevelWarn format args w"

definition Error :: "Logger \<Rightarrow> Context \<Rightarrow> string \<Rightarrow> any list \<Rightarrow> world \<Rightarrow> world" where
  "Error logger ctx msg args w = Log logger ctx LevelError msg args w"

definition Errorf :: "Sprintf \<Rightarrow> Logger \<Rightarrow> Context \<Rightarrow> string \<Rightarrow> any list \<Rightarrow> world \<Rightarrow> world" where
  "Errorf sprintf logger ctx format args w = Logf sprintf logger ctx LevelError format args w"

definition Fatal :: "Logger \<Rightarrow> Context \<Rightarrow> string \<Rightarrow> any list \<Rightarrow> world \<Rightarrow> world" where
  "Fatal logger ctx msg args w = Log logger ctx (LevelError + 4) msg args w"

definition Fatalf :: "Sprintf \<Rightarrow> Logger \<Rightarrow> Context \<Rightarrow> string \<Rightarrow> any list \<Rightarrow> world \<Rightarrow> world" where
  "Fatalf sprintf logger ctx format args w = Logf sprintf logger ctx (LevelError + 4) format args w"

text \<open>
  The other revision of the Logger in the repository differs in three places: its
  \<^verbatim>\<open>DefaultOptions\<close> turns the level prefix on, its plain forms take no arguments, and
  its \<^verbatim>\<open>Logf\<close> hands the format string and the arguments to the engine as they are.
\<close>

definition Logf_passthrough ::
  "Logger \<Rightarrow> Context \<Rightarrow> level \<Rightarrow> string \<Rightarrow> any list \<Rightarrow> world \<Rightarrow> world" where
  "Logf_passthrough logger ctx l msg args w = slog_Log (slogger logger) ctx l msg args w"

definition Infof_passthrough ::
  "Logger \<Rightarrow> Context \<Rightarrow> string \<Rightarrow> any list \<Rightarrow> world \<Rightarrow> world" where
  "Infof_passthrough logger ctx format args w = Logf_passthrough logger ctx LevelInfo format args w"

text \<open>A leveled call as a value, and a sequence of them against one Logger.\<close>

datatype call =
    CLog level string "any list" | CLogf level string "any list"
  | CDebug string "any list" | CDebugf string "any list"
  | CInfo string "any list" | CInfof string "any list"
  | CWarn string "any list" | CWarnf string "any list"
  | CError string "any list" | CErrorf string "any list"
  | CFatal string "any list" | CFatalf string "any list"

fun do_call :: "Sprintf \<Rightarrow> Logger \<Rightarrow> Context \<Rightarrow> call \<Rightarrow> world \<Rightarrow> world" where
  "do_call sp logger ctx (CLog l msg args) w = Log logger ctx l msg args w"
| "do_call sp logger ctx (CLogf l format args) w = Logf sp logger ctx l format args w"
| "do_call sp logger ctx (CDebug msg args) w = Debug logger ctx msg args w"
| "do_call sp logger ctx (CDebugf format args) w = Debugf sp logger ctx format args w"
| "do_call sp logger ctx (CInfo msg args) w = Info logger ctx msg args w"
| "do_call sp logger ctx (CInfof format args) w = Infof sp logger ctx format args w"
| "do_call sp logger ctx (CWarn msg args) w = Warn logger ctx msg args w"
| "do_call sp logger ctx (CWarnf format args) w = Warnf sp logger ctx format args w"
| "do_call sp logger ctx (CError msg args) w = Error logger ctx msg args w"
| "do_call sp logger ctx (CErrorf format args) w = Errorf sp logger ctx format args w"
| "do_call sp logger ctx (CFatal msg args) w = Fatal logger ctx msg args w"
| "do_call sp logger ctx (CFatalf format args) w = Fatalf sp logger ctx format args w"

fun call_level :: "call \<Rightarrow> level" where
  "call_level (CLog l msg args) = l"
| "call_level (CLogf l format args) = l"
| "call_level (CDebug msg args) = LevelDebug"
| "call_level (CDebugf format args) = LevelDebug"
| "call_level (CInfo msg args) = LevelInfo"
| "call_level (CInfof format args) = LevelInfo"
| "call_level (CWarn msg args) = LevelWarn"
| "call_level (CWarnf format args) = LevelWarn"
| "call_level (CError msg args) = LevelError"
| "call_level (CErrorf format args) = LevelError"
| "call_level (CFatal msg args) = LevelError + 4"
| "call_level (CFatalf format args) = LevelError + 4"

fun do_calls :: "Sprintf \<Rightarrow> Logger \<Rightarrow> Context \<Rightarrow> call list \<Rightarrow> world \<Rightarrow> world" where
  "do_calls sp logger ctx [] w = w"
| "do_calls sp logger ctx (c # cs) w = do_calls sp logger ctx cs (do_call sp logger ctx c w)"

text \<open>A reconfiguration as a value, and a Logger after a sequence of them.\<close>

datatype mutation =
    MSetHandler writer HandlerType "slog_HandlerOptions option"
  | MSetOutput writer
  | MSetLevel level
  | MSetCustomHandler slog_Handler

fun mutate :: "Logger \<Rightarrow> mutation \<Rightarrow> Logger" where
  "mutate logger (MSetHandler output t opts) = SetHandler logger output t opts"
| "mutate logger (MSetOutput output) = SetOutput logger output"
| "mutate logger (MSetLevel l) = SetLevel logger l"
| "mutate logger (MSetCustomHandler h) = SetCustomHandler logger h"

definition reconfigure :: "Logger \<Rightarrow> mutation list \<Rightarrow> Logger" where
  "reconfigure logger ms = foldl mutate logger ms"

text \<open>
  The handlers of the engine itself, with or without the prefix layer, and the writer
  such a handler writes to.
\<close>

fun builtin :: "slog_Handler \<Rightarrow> bool" where
  "builtin (TextHandler out ho) = True"
| "builtin (JSONHandler out ho) = True"
| "builtin (levelPrefixHandler h) = builtin h"
| "builtin (OtherHandler en hdl) = False"

fun destination :: "slog_Handler \<Rightarrow> writer option" where
  "destination (TextHandler out ho) = Some out"
| "destination (JSONHandler out ho) = Some out"
| "destination (levelPrefixHandler h) = destination h"
| "destination (OtherHandler en hdl) = None"

text \<open>
  What a leveled call hands to the engine: the message text (rendered by \<open>sprintf\<close> in
  the formatted forms) and the arguments (none in the formatted forms).
\<close>

fun call_message :: "Sprintf \<Rightarrow> call \<Rightarrow> string" where
  "call_message sp (CLog l msg args) = msg"
| "call_message sp (CLogf l format args) = sp format args"
| "call_message sp (CDebug msg args) = msg"
| "call_message sp (CDebugf format args) = sp format args"
| "call_message sp (CInfo msg args) = msg"
| "call_message sp (CInfof format args) = sp format args"
| "call_message sp (CWarn msg args) = msg"
| "call_message sp (CWarnf format args) = sp format args"
| "call_message sp (CError msg args) = msg"
| "call_message sp (CErrorf format args) = sp format args"
| "call_message sp (CFatal msg args) = msg"
| "call_message sp (CFatalf format args) = sp format args"

fun call_args :: "call \<Rightarrow> any list" where
  "call_args (CLog l msg args) = args"
| "call_args (CLogf l format args) = []"
| "call_args (CDebug msg args) = args"
| "call_args (CDebugf format args) = []"
| "call_args (CInfo msg args) = args"
| "call_args (CInfof format args) = []"
| "call_args (CWarn msg args) = args"
| "call_args (CWarnf format args) = []"
| "call_args (CError msg args) = args"
| "call_args (CErrorf format args) = []"
| "call_args (CFatal msg args) = args"
| "call_args (CFatalf format args) = []"

text \<open>
  The entry a built-in handler of type \<open>t\<close> writes for a call, behind the prefix layer
  when \<open>b\<close> holds; and the handler embedded in a \<^verbatim>\<open>levelPrefixHandler\<close>.
\<close>

definition encodingOf :: "HandlerType \<Rightarrow> encoding" where
  "encodingOf t = (if t = HandlerTypeJSON then JSONEncoding else TextEncoding)"

definition decorated :: "bool \<Rightarrow> level \<Rightarrow> string \<Rightarrow> string" where
  "decorated b l msg = (if b then ''- '' @ Level_String l @ '' - '' @ msg else msg)"

definition call_entry :: "Sprintf \<Rightarrow> bool \<Rightarrow> HandlerType \<Rightarrow> call \<Rightarrow> entry" where
  "call_entry sp b t c =
     Entry (encodingOf t)
       \<lparr>Level = call_level c,
        Message = decorated b (call_level c) (call_message sp c),
        Attrs = argsToAttrs (call_args c)\<rparr>"

fun embedded :: "slog_Handler \<Rightarrow> slog_Handler" where
  "embedded (levelPrefixHandler h) = h"
| "embedded h = h"

text \<open>Concrete values used in the examples: a world with nothing written, and options.\<close>

definition no_output :: world where
  "no_output = (\<lambda>out. [])"

definition no_sprintf :: Sprintf where
  "no_sprintf = (\<lambda>format args. format)"

definition plain_opts :: Options where
  "plain_opts =
     \<lparr>opt_Level = LevelInfo, opt_AddLevelPrefix = False, opt_HandlerType = HandlerTypeText,
      opt_CustomHandler = None, opt_HandlerOptions = None\<rparr>"

definition prefix_opts :: Options where
  "prefix_opts =
     \<lparr>opt_Level = LevelDebug, opt_AddLevelPrefix = True, opt_HandlerType = HandlerTypeJSON,
      opt_CustomHandler = None, opt_HandlerOptions = None\<rparr>"

definition override_opts :: Options where
  "override_opts =
     \<lparr>opt_Level = LevelDebug, opt_AddLevelPrefix = False, opt_HandlerType = HandlerTypeText,
      opt_CustomHandler = None,
      opt_HandlerOptions =
        Some \<lparr>ho_AddSource = False, ho_Level = Some LevelError, ho_ReplaceAttr = None\<rparr>\<rparr>"

section \<open>The context carrier (context.go)\<close>

text \<open>
  A \<^verbatim>\<open>context.Context\<close> is a reference to an immutable node: the empty context, or a
  \<^verbatim>\<open>valueCtx\<close> holding its parent, a key and a value. The nodes live in a heap, a node's
  address is its index, and \<^verbatim>\<open>context.WithValue\<close> allocates a node at the end. A key is
  compared with its dynamic type: \<^verbatim>\<open>ContextKey\<close> strings are apart from every other
  key. A value is a \<^verbatim>\<open>*Logger\<close> (nil, or the address of a Logger) or of another type.
\<close>

datatype ctx_key = ContextKey string | ForeignKey nat

datatype ctx_val = LoggerVal "nat option" | ForeignVal nat

datatype ctx_node = emptyCtx | valueCtx Context ctx_key ctx_val

type_synonym ctx_heap = "ctx_node list"

definition LoggerKey :: ctx_key where
  "LoggerKey = ContextKey ''slogr_logger''"

definition context_WithValue ::
  "ctx_heap \<Rightarrow> Context \<Rightarrow> ctx_key \<Rightarrow> ctx_val \<Rightarrow> ctx_heap \<times> Context" where
  "context_WithValue h parent key val = (h @ [valueCtx parent key val], length h)"

text \<open>
  \<^verbatim>\<open>ctx.Value(key)\<close> walks from a node towards the root. A parent is allocated before
  its child, so its address is smaller; the walk stops where that fails.
\<close>

function Value :: "ctx_heap \<Rightarrow> Context \<Rightarrow> ctx_key \<Rightarrow> ctx_val option" where
  "Value h c key =
     (if c < length h then
        (case h ! c of
           emptyCtx \<Rightarrow> None
         | valueCtx parent k v \<Rightarrow>
             (if k = key then Some v
              else if parent < c then Value h parent key
              else None))
      else None)"
  by pat_completeness auto
termination
  by (relation "measure (\<lambda>(h, c, key). c)") auto

declare Value.simps [simp del]

definition WithLogger :: "ctx_heap \<Rightarrow> Context \<Rightarrow> nat option \<Rightarrow> ctx_heap \<times> Context" where
  "WithLogger h ctx logger = context_WithValue h ctx LoggerKey (LoggerVal logger)"

text \<open>
  \<^verbatim>\<open>FromContext\<close>: the type assertion \<^verbatim>\<open>.(*Logger)\<close> succeeds on a stored \<^verbatim>\<open>*Logger\<close>,
  nil or not, and fails on a missing value and on a value of another type.
\<close>

definition FromContext :: "ctx_heap \<Rightarrow> Context \<Rightarrow> nat option" where
  "FromContext h ctx =
     (case Value h ctx LoggerKey of
        Some (LoggerVal logger) \<Rightarrow> logger
      | _ \<Rightarrow> None)"

text \<open>The keys that have an association on the way from a node to the root.\<close>

function chain_keys :: "ctx_heap \<Rightarrow> Context \<Rightarrow> ctx_key list" where
  "chain_keys h c =
     (if c < length h then
        (case h ! c of
           emptyCtx \<Rightarrow> []
         | valueCtx parent k v \<Rightarrow> k # (if parent < c then chain_keys h parent else []))
      else [])"
  by pat_completeness auto
termination
  by (relation "measure (\<lambda>(h, c). c)") auto

declare chain_keys.simps [simp del]

definition two_nodes :: ctx_heap where
  "two_nodes = [emptyCtx, valueCtx 0 (ForeignKey 3) (ForeignVal 9)]"

section \<open>Properties of the parser\<close>

lemma unicode_ToUpper_eq_iff:
  assumes "unicode_table_ok tbl" and "c \<le> 127" and "c \<noteq> 73" and "c \<noteq> 83"
  shows "unicode_ToUpper tbl r = c \<longleftrightarrow> ascii_upper r = c"
proof (cases "r \<le> 127")
  case True
  then show ?thesis by (simp add: unicode_ToUpper_def ascii_upper_def)
next
  case False
  then have big: "127 < r" by simp
  with assms(1) have "127 < tbl r \<or> tbl r = 73 \<or> tbl r = 83"
    by (simp add: unicode_table_ok_def)
  with assms(2-4) have "tbl r \<noteq> c" by auto
  moreover from big assms(2) have "ascii_upper r \<noteq> c"
    by (simp add: ascii_upper_def)
  ultimately show ?thesis using big by (simp add: unicode_ToUpper_def)
qed

lemma strings_ToUpper_eq_iff:
  assumes "unicode_table_ok tbl" and "\<forall>c \<in> set t. c \<le> 127 \<and> c \<noteq> 73 \<and> c \<noteq> 83"
  shows "strings_ToUpper tbl s = t \<longleftrightarrow> map ascii_upper s = t"
  using assms(2)
proof (induction s arbitrary: t)
  case Nil
  then show ?case by (simp add: strings_ToUpper_def)
next
  case (Cons r s)
  show ?case
  proof (cases t)
    case Nil
    then show ?thesis by (simp add: strings_ToUpper_def)
  next
    case (Cons c t')
    with Cons.prems have c: "c \<le> 127" "c \<noteq> 73" "c \<noteq> 83"
      and t': "\<forall>c \<in> set t'. c \<le> 127 \<and> c \<noteq> 73 \<and> c \<noteq> 83" by simp_all
    from Cons.IH [OF t'] have "map (unicode_ToUpper tbl) s = t' \<longleftrightarrow> map ascii_upper s = t'"
      by (simp add: strings_ToUpper_def)
    with unicode_ToUpper_eq_iff [OF assms(1) c, of r] Cons show ?thesis
      by (simp add: strings_ToUpper_def)
  qed
qed

lemma runes_WARN: "runes ''WARN'' = [87, 65, 82, 78]"
  by (simp add: runes_def)

lemma runes_ERROR: "runes ''ERROR'' = [69, 82, 82, 79, 82]"
  by (simp add: runes_def)

lemma runes_DEBUG: "runes ''DEBUG'' = [68, 69, 66, 85, 71]"
  by (simp add: runes_def)

lemma runes_INFO: "runes ''INFO'' = [73, 78, 70, 79]"
  by (simp add: runes_def)

lemma ToUpper_matches:
  assumes "unicode_table_ok tbl"
  shows "strings_ToUpper tbl s = runes ''WARN'' \<longleftrightarrow> matches_name s ''WARN''"
    and "strings_ToUpper tbl s = runes ''ERROR'' \<longleftrightarrow> matches_name s ''ERROR''"
    and "strings_ToUpper tbl s = runes ''DEBUG'' \<longleftrightarrow> matches_name s ''DEBUG''"
  unfolding matches_name_def runes_WARN runes_ERROR runes_DEBUG
  by (rule strings_ToUpper_eq_iff [OF assms], simp)+

text \<open>
  C4. \<^verbatim>\<open>ParseLevel\<close> is a total function of the name: it returns WARN, ERROR or DEBUG
  exactly for the names that match these words without regard to case, and INFO for
  every other name, which covers the names matching INFO, the empty name and FATAL;
  the three spellings of "info" give the same level.
\<close>

theorem ParseLevel_case_insensitive:
  assumes "unicode_table_ok tbl"
  shows "ParseLevel tbl s = spec_ParseLevel s
       \<and> ParseLevel tbl s \<in> {LevelInfo, LevelWarn, LevelError, LevelDebug}
       \<and> ParseLevel tbl (runes '''') = LevelInfo
       \<and> ParseLevel tbl (runes ''FATAL'') = LevelInfo
       \<and> ParseLevel tbl (runes ''bogus'') = LevelInfo
       \<and> ParseLevel tbl (runes ''info'') = LevelInfo
       \<and> ParseLevel tbl (runes ''INFO'') = LevelInfo
       \<and> ParseLevel tbl (runes ''Info'') = LevelInfo"
proof -
  have eq: "ParseLevel tbl s = spec_ParseLevel s" for s
  proof (cases "strings_ToUpper tbl s = runes ''INFO''")
    case True
    then have "\<not> matches_name s ''WARN''" "\<not> matches_name s ''ERROR''"
      "\<not> matches_name s ''DEBUG''"
      unfolding ToUpper_matches [OF assms, symmetric] by (simp_all add: runes_def)
    with True show ?thesis by (simp add: ParseLevel_def spec_ParseLevel_def Let_def)
  next
    case False
    show ?thesis
    proof (cases "matches_name s ''INFO''")
      case True
      then have "\<not> matches_name s ''WARN''" "\<not> matches_name s ''ERROR''"
        "\<not> matches_name s ''DEBUG''"
        by (simp_all add: matches_name_def runes_def)
      then show ?thesis
        by (simp add: ParseLevel_def spec_ParseLevel_def Let_def ToUpper_matches [OF assms])
    next
      case no_info: False
      with False show ?thesis
        by (simp add: ParseLevel_def spec_ParseLevel_def Let_def ToUpper_matches [OF assms])
    qed
  qed
  have mem: "spec_ParseLevel s \<in> {LevelInfo, LevelWarn, LevelError, LevelDebug}"
    by (simp add: spec_ParseLevel_def)
  have fixed: "spec_ParseLevel (runes '''') = LevelInfo"
    "spec_ParseLevel (runes ''FATAL'') = LevelInfo"
    "spec_ParseLevel (runes ''bogus'') = LevelInfo"
    "spec_ParseLevel (runes ''info'') = LevelInfo"
    "spec_ParseLevel (runes ''INFO'') = LevelInfo"
    "spec_ParseLevel (runes ''Info'') = LevelInfo"
    by (simp_all add: spec_ParseLevel_def matches_name_def runes_def ascii_upper_def)
  show ?thesis using mem fixed by (simp add: eq)
qed

lemma go_unicode_upper_ok: "unicode_table_ok go_unicode_upper"
  by (simp add: unicode_table_ok_def go_unicode_upper_def)

theorem ParseLevel_case_insensitive_witness:
  "unicode_table_ok go_unicode_upper
   \<and> ParseLevel go_unicode_upper (runes ''wArN'') = LevelWarn
   \<and> ParseLevel go_unicode_upper (runes ''error'') = LevelError
   \<and> ParseLevel go_unicode_upper (runes ''Debug'') = LevelDebug
   \<and> ParseLevel go_unicode_upper [305, 110, 102, 111] = LevelInfo"
proof -
  have "spec_ParseLevel (runes ''wArN'') = LevelWarn"
    "spec_ParseLevel (runes ''error'') = LevelError"
    "spec_ParseLevel (runes ''Debug'') = LevelDebug"
    "spec_ParseLevel [305, 110, 102, 111] = LevelInfo"
    by (simp_all add: spec_ParseLevel_def matches_name_def runes_def ascii_upper_def)
  with ParseLevel_case_insensitive [OF go_unicode_upper_ok] go_unicode_upper_ok
  show ?thesis by simp
qed

section \<open>Properties of the Logger\<close>

lemma Level_String_names:
  "Level_String LevelDebug = ''DEBUG''"
  "Level_String LevelInfo = ''INFO''"
  "Level_String LevelWarn = ''WARN''"
  "Level_String LevelError = ''ERROR''"
  "Level_String (LevelError + 4) = ''ERROR+4''"
  by (simp_all add: Level_String_def str_def fmt_plus_d_def decimal.simps
      LevelDebug_def LevelInfo_def LevelWarn_def LevelError_def)


lemma do_call_slog_Log:
  "do_call sp logger ctx c w =
     slog_Log (slogger logger) ctx (call_level c) (call_message sp c) (call_args c) w"
  by (cases c)
    (simp_all add: Log_def Logf_def Debug_def Debugf_def Info_def Infof_def Warn_def Warnf_def
      Error_def Errorf_def Fatal_def Fatalf_def)

lemma slog_Log_levelPrefixHandler:
  "slog_Log (levelPrefixHandler h) ctx l msg args w =
     slog_Log h ctx l (''- '' @ Level_String l @ '' - '' @ msg) args w"
  by (simp add: slog_Log_def)

lemma slog_Log_newHandler:
  "slog_Log (if b then levelPrefixHandler (newHandler out t ho) else newHandler out t ho)
      ctx l msg args w =
     (if minLevel ho \<le> l
      then w(out := w out @ [Entry (encodingOf t)
              \<lparr>Level = l, Message = decorated b l msg, Attrs = argsToAttrs args\<rparr>])
      else w)"
  by (simp add: slog_Log_def newHandler_def encodingOf_def decorated_def)

lemma slogger_SetHandler:
  "slogger (SetHandler logger out t opts) =
     (if shouldPreficMessageWithLevel logger
      then levelPrefixHandler (newHandler out t (case opts of None \<Rightarrow> levelOnly (level logger) | Some ho \<Rightarrow> ho))
      else newHandler out t (case opts of None \<Rightarrow> levelOnly (level logger) | Some ho \<Rightarrow> ho))"
  by (simp add: SetHandler_def Let_def)

lemma fields_SetHandler:
  "level (SetHandler logger out t opts) = level logger"
  "handlerType (SetHandler logger out t opts) = handlerType logger"
  "shouldPreficMessageWithLevel (SetHandler logger out t opts) = shouldPreficMessageWithLevel logger"
  "writerType (SetHandler logger out t opts) = writerType logger"
  by (simp_all add: SetHandler_def Let_def)

lemma do_call_SetHandler:
  "do_call sp (SetHandler logger out t (Some ho)) ctx c w =
     (if minLevel ho \<le> call_level c
      then w(out := w out @ [call_entry sp (shouldPreficMessageWithLevel logger) t c])
      else w)"
  unfolding do_call_slog_Log slogger_SetHandler call_entry_def
  by (simp only: slog_Log_newHandler option.case)

lemma minLevel_levelOnly: "minLevel (levelOnly l) = l"
  by (simp add: minLevel_def levelOnly_def)

lemma do_call_SetOutput:
  "do_call sp (SetOutput logger out) ctx c w =
     (if level logger \<le> call_level c
      then w(out := w out @ [call_entry sp (shouldPreficMessageWithLevel logger) (handlerType logger) c])
      else w)"
  by (simp add: SetOutput_def do_call_SetHandler minLevel_levelOnly)

lemma do_call_SetLevel:
  "do_call sp (SetLevel logger T) ctx c w =
     (if T \<le> call_level c
      then w(writerType logger := w (writerType logger)
               @ [call_entry sp (shouldPreficMessageWithLevel logger) (handlerType logger) c])
      else w)"
  by (simp add: SetLevel_def Let_def do_call_SetHandler minLevel_levelOnly)

lemma slogger_New:
  "slogger (New out (Some given)) =
     (let h = (case opt_CustomHandler given of
                 Some h \<Rightarrow> h
               | None \<Rightarrow> newHandler out (opt_HandlerType given)
                   (case opt_HandlerOptions given of
                      None \<Rightarrow> levelOnly (opt_Level given) | Some ho \<Rightarrow> ho))
      in if opt_AddLevelPrefix given then levelPrefixHandler h else h)"
  by (simp add: New_def Let_def)

lemma do_call_New:
  "opt_CustomHandler given = None \<Longrightarrow>
   do_call sp (New out (Some given)) ctx c w =
     (if (case opt_HandlerOptions given of None \<Rightarrow> opt_Level given | Some ho \<Rightarrow> minLevel ho)
           \<le> call_level c
      then w(out := w out @ [call_entry sp (opt_AddLevelPrefix given) (opt_HandlerType given) c])
      else w)"
  unfolding do_call_slog_Log slogger_New call_entry_def
  by (simp add: slog_Log_newHandler Let_def minLevel_levelOnly split: option.splits)

lemma do_call_New_default:
  "do_call sp (New out None) ctx c w =
     (if LevelInfo \<le> call_level c
      then w(out := w out @ [call_entry sp False HandlerTypeText c])
      else w)"
  unfolding do_call_slog_Log call_entry_def
  by (simp add: New_def DefaultOptions_def Let_def newHandler_def HandlerTypeText_def HandlerTypeJSON_def
      slog_Log_def minLevel_def encodingOf_def decorated_def)

lemma write_changes: "w(out := w out @ [e]) \<noteq> w"
proof
  assume "w(out := w out @ [e]) = w"
  then have "(w(out := w out @ [e])) out = w out" by simp
  then show False by simp
qed

lemma do_calls_writes:
  assumes step: "\<And>c w. do_call sp logger ctx c w =
      (if T \<le> call_level c then w(out := w out @ [call_entry sp b t c]) else w)"
  shows "do_calls sp logger ctx cs w =
      w(out := w out @ map (call_entry sp b t) (filter (\<lambda>c. T \<le> call_level c) cs))"
proof (induction cs arbitrary: w)
  case Nil
  show ?case by simp
next
  case (Cons c cs)
  show ?case by (auto simp add: Cons.IH step fun_eq_iff)
qed

text \<open>
  C1. A leveled call should be written exactly when its severity is at least the
  Logger's threshold. \<^verbatim>\<open>New\<close> stores \<^verbatim>\<open>Options.Level\<close> as the Logger's level but builds
  the handler from the caller's \<^verbatim>\<open>HandlerOptions\<close> as they are: with level DEBUG and
  handler options at ERROR the Logger reports DEBUG and drops an INFO call. The same
  level without handler options, or set again by \<^verbatim>\<open>SetLevel\<close>, lets the call through.
\<close>

theorem New_threshold_out_of_sync:
  "GetLevel (New 0 (Some override_opts)) = LevelDebug
   \<and> LevelDebug \<le> LevelInfo
   \<and> Info (New 0 (Some override_opts)) 0 ''hello'' [] no_output = no_output
   \<and> Info (New 0 (Some (override_opts\<lparr>opt_HandlerOptions := None\<rparr>))) 0 ''hello'' [] no_output
       = no_output(0 := [Entry TextEncoding
            \<lparr>Level = LevelInfo, Message = ''hello'', Attrs = []\<rparr>])
   \<and> Info (SetLevel (New 0 (Some override_opts)) LevelDebug) 0 ''hello'' [] no_output
       = no_output(0 := [Entry TextEncoding
            \<lparr>Level = LevelInfo, Message = ''hello'', Attrs = []\<rparr>])"
  by (simp add: GetLevel_def New_def SetLevel_def SetHandler_def override_opts_def Let_def
      newHandler_def levelOnly_def Info_def Log_def
      slog_Log_def minLevel_def LevelDebug_def LevelInfo_def LevelError_def
      HandlerTypeText_def HandlerTypeJSON_def no_output_def)

text \<open>
  C2. \<^verbatim>\<open>SetLevel\<close> should leave the destination as it is. \<^verbatim>\<open>SetOutput\<close> does not
  store the new writer in the Logger, and \<^verbatim>\<open>SetLevel\<close> rebuilds the handler on the
  stored one: after \<^verbatim>\<open>New(0)\<close>, \<^verbatim>\<open>SetOutput(1)\<close> and \<^verbatim>\<open>SetLevel(INFO)\<close> an INFO call
  writes to writer 0 and nothing to writer 1, where it went before the \<^verbatim>\<open>SetLevel\<close>.
\<close>

theorem SetLevel_after_SetOutput:
  "Info (SetLevel (SetOutput (New 0 None) 1) LevelInfo) 0 ''hello'' [] no_output
     = no_output(0 := [Entry TextEncoding \<lparr>Level = LevelInfo, Message = ''hello'', Attrs = []\<rparr>])
   \<and> Info (SetLevel (SetOutput (New 0 None) 1) LevelInfo) 0 ''hello'' [] no_output 1 = []
   \<and> Info (SetOutput (New 0 None) 1) 0 ''hello'' [] no_output
     = no_output(1 := [Entry TextEncoding \<lparr>Level = LevelInfo, Message = ''hello'', Attrs = []\<rparr>])"
proof -
  have eq: "Info logger ctx msg args w = do_call no_sprintf logger ctx (CInfo msg args) w"
    for logger ctx msg args w by simp
  have f: "writerType (SetOutput (New 0 None) 1) = 0"
    "handlerType (SetOutput (New 0 None) 1) = HandlerTypeText"
    "shouldPreficMessageWithLevel (SetOutput (New 0 None) 1) = False"
    "level (New 0 None) = LevelInfo"
    "handlerType (New 0 None) = HandlerTypeText"
    "shouldPreficMessageWithLevel (New 0 None) = False"
    by (simp_all add: SetOutput_def fields_SetHandler) (simp_all add: New_def DefaultOptions_def)
  show ?thesis
    unfolding eq do_call_SetLevel do_call_SetOutput f
    by (simp add: call_entry_def no_output_def encodingOf_def decorated_def
        HandlerTypeText_def HandlerTypeJSON_def)
qed

text \<open>
  Straight after \<^verbatim>\<open>SetOutput(B)\<close> the Logger's fields are as before, the leveled calls
  change no writer but B, and B receives one record for each call at or above the
  Logger's level field.
\<close>

lemma SetOutput_then_calls:
  "level (SetOutput logger B) = level logger
   \<and> handlerType (SetOutput logger B) = handlerType logger
   \<and> shouldPreficMessageWithLevel (SetOutput logger B) = shouldPreficMessageWithLevel logger
   \<and> (\<forall>A. A \<noteq> B \<longrightarrow> do_calls sp (SetOutput logger B) ctx cs w A = w A)
   \<and> do_calls sp (SetOutput logger B) ctx cs w B
       = w B @ map (call_entry sp (shouldPreficMessageWithLevel logger) (handlerType logger))
                 (filter (\<lambda>c. level logger \<le> call_level c) cs)"
proof -
  have "do_calls sp (SetOutput logger B) ctx cs w =
      w(B := w B @ map (call_entry sp (shouldPreficMessageWithLevel logger) (handlerType logger))
                    (filter (\<lambda>c. level logger \<le> call_level c) cs))"
    by (rule do_calls_writes) (rule do_call_SetOutput)
  then show ?thesis by (simp add: SetOutput_def fields_SetHandler)
qed

text \<open>
  C3. After \<^verbatim>\<open>SetOutput(B)\<close> every later call should write to B only, with threshold
  and encoding as before. \<^verbatim>\<open>SetOutput\<close> does not store B: once \<^verbatim>\<open>SetLevel\<close> follows, a
  call behaves as if \<^verbatim>\<open>SetOutput\<close> had never been made, and an ERROR call that went to
  writer 1 goes to writer 0 again. \<^verbatim>\<open>SetOutput\<close> also rebuilds the handler from the
  Logger's fields: a WARN call dropped by handler options at ERROR is written after
  the switch, and JSON installed by \<^verbatim>\<open>SetHandler\<close> becomes text.
\<close>

theorem SetOutput_lost_on_SetLevel:
  "do_call sp (SetLevel (SetOutput logger B) T) ctx c w = do_call sp (SetLevel logger T) ctx c w
   \<and> writerType (SetOutput logger B) = writerType logger
   \<and> Error (SetOutput (New 0 (Some prefix_opts)) 1) 0 ''early'' [] no_output
       = no_output(1 := [Entry JSONEncoding
            \<lparr>Level = LevelError, Message = ''- ERROR - early'', Attrs = []\<rparr>])
   \<and> Error (SetLevel (SetOutput (New 0 (Some prefix_opts)) 1) LevelWarn) 0 ''late'' [] no_output
       = no_output(0 := [Entry JSONEncoding
            \<lparr>Level = LevelError, Message = ''- ERROR - late'', Attrs = []\<rparr>])
   \<and> Warn (New 0 (Some override_opts)) 0 ''before'' [] no_output = no_output
   \<and> Warn (SetOutput (New 0 (Some override_opts)) 1) 0 ''after'' [] no_output
       = no_output(1 := [Entry TextEncoding
            \<lparr>Level = LevelWarn, Message = ''after'', Attrs = []\<rparr>])
   \<and> Info (SetHandler (New 0 None) 0 HandlerTypeJSON None) 0 ''before'' [] no_output
       = no_output(0 := [Entry JSONEncoding
            \<lparr>Level = LevelInfo, Message = ''before'', Attrs = []\<rparr>])
   \<and> Info (SetOutput (SetHandler (New 0 None) 0 HandlerTypeJSON None) 1) 0 ''after'' [] no_output
       = no_output(1 := [Entry TextEncoding
            \<lparr>Level = LevelInfo, Message = ''after'', Attrs = []\<rparr>])"
proof -
  have g: "do_call sp (SetLevel (SetOutput logger B) T) ctx c w
      = do_call sp (SetLevel logger T) ctx c w"
    unfolding do_call_SetLevel by (simp add: SetOutput_def fields_SetHandler)
  have f: "writerType (SetOutput logger B) = writerType logger"
    by (simp add: SetOutput_def fields_SetHandler)
  have e: "Error (SetOutput (New 0 (Some prefix_opts)) 1) 0 ''early'' [] no_output
       = no_output(1 := [Entry JSONEncoding
            \<lparr>Level = LevelError, Message = ''- ERROR - early'', Attrs = []\<rparr>])"
    "Error (SetLevel (SetOutput (New 0 (Some prefix_opts)) 1) LevelWarn) 0 ''late'' [] no_output
       = no_output(0 := [Entry JSONEncoding
            \<lparr>Level = LevelError, Message = ''- ERROR - late'', Attrs = []\<rparr>])"
    by (simp_all add: New_def SetLevel_def SetOutput_def SetHandler_def prefix_opts_def Let_def
        newHandler_def levelOnly_def Error_def Log_def slog_Log_def minLevel_def
        Level_String_names LevelDebug_def LevelWarn_def
        HandlerTypeText_def HandlerTypeJSON_def no_output_def)
      (simp_all add: LevelError_def)
  have t: "Warn (New 0 (Some override_opts)) 0 ''before'' [] no_output = no_output"
    "Warn (SetOutput (New 0 (Some override_opts)) 1) 0 ''after'' [] no_output
       = no_output(1 := [Entry TextEncoding
            \<lparr>Level = LevelWarn, Message = ''after'', Attrs = []\<rparr>])"
    by (simp_all add: New_def SetOutput_def SetHandler_def override_opts_def Let_def
        newHandler_def levelOnly_def Warn_def Log_def slog_Log_def minLevel_def
        LevelDebug_def LevelWarn_def LevelError_def
        HandlerTypeText_def HandlerTypeJSON_def no_output_def)
  have n: "Info (SetHandler (New 0 None) 0 HandlerTypeJSON None) 0 ''before'' [] no_output
       = no_output(0 := [Entry JSONEncoding
            \<lparr>Level = LevelInfo, Message = ''before'', Attrs = []\<rparr>])"
    "Info (SetOutput (SetHandler (New 0 None) 0 HandlerTypeJSON None) 1) 0 ''after'' [] no_output
       = no_output(1 := [Entry TextEncoding
            \<lparr>Level = LevelInfo, Message = ''after'', Attrs = []\<rparr>])"
    by (simp_all add: New_def SetOutput_def SetHandler_def DefaultOptions_def Let_def
        newHandler_def levelOnly_def Info_def Log_def slog_Log_def minLevel_def
        HandlerTypeText_def HandlerTypeJSON_def no_output_def)
  from g f e t n show ?thesis by simp
qed

lemma prefix_layer_New:
  "shouldPreficMessageWithLevel (New out opts) \<Longrightarrow>
   slogger (New out opts) = levelPrefixHandler (embedded (slogger (New out opts)))"
  by (simp add: New_def Let_def)

lemma prefix_layer_mutate:
  assumes "shouldPreficMessageWithLevel logger \<Longrightarrow>
      slogger logger = levelPrefixHandler (embedded (slogger logger))"
  shows "shouldPreficMessageWithLevel (mutate logger m) = shouldPreficMessageWithLevel logger"
    and "shouldPreficMessageWithLevel (mutate logger m) \<Longrightarrow>
      slogger (mutate logger m) = levelPrefixHandler (embedded (slogger (mutate logger m)))"
  by (cases m; simp add: SetHandler_def SetOutput_def SetLevel_def SetCustomHandler_def Let_def)+

lemma prefix_layer_reconfigure:
  assumes "shouldPreficMessageWithLevel logger \<Longrightarrow>
      slogger logger = levelPrefixHandler (embedded (slogger logger))"
    and "shouldPreficMessageWithLevel (reconfigure logger ms)"
  shows "slogger (reconfigure logger ms)
      = levelPrefixHandler (embedded (slogger (reconfigure logger ms)))"
  using assms unfolding reconfigure_def
proof (induction ms arbitrary: logger)
  case Nil
  then show ?case by simp
next
  case (Cons m ms)
  show ?case
    unfolding foldl_Cons
  proof (rule Cons.IH)
    show "slogger (mutate logger m) = levelPrefixHandler (embedded (slogger (mutate logger m)))"
      if "shouldPreficMessageWithLevel (mutate logger m)"
      using that Cons.prems(1) by (rule prefix_layer_mutate(2) [rotated])
    show "shouldPreficMessageWithLevel (foldl mutate (mutate logger m) ms)"
      using Cons.prems(2) by simp
  qed
qed

text \<open>
  C5 (as amended). The prefix layer hands the wrapped handler the same record with the message
  \<^verbatim>\<open>"- " + Level.String() + " - " + message\<close>; level and attributes stay. A Logger
  with the prefix flag, however it was built and reconfigured, has that layer
  outermost, so every leveled call reaches the handler below it with the decorated
  message and the call's own arguments. The names are DEBUG, INFO, WARN, ERROR, and
  ERROR+4 for the level of \<^verbatim>\<open>Fatal\<close>.
\<close>

theorem prefix_decoration:
  "Handle (levelPrefixHandler h) ctx r w
     = Handle h ctx (r\<lparr>Message := ''- '' @ Level_String (Level r) @ '' - '' @ Message r\<rparr>) w
   \<and> Attrs (r\<lparr>Message := ''- '' @ Level_String (Level r) @ '' - '' @ Message r\<rparr>) = Attrs r
   \<and> Level (r\<lparr>Message := ''- '' @ Level_String (Level r) @ '' - '' @ Message r\<rparr>) = Level r
   \<and> (shouldPreficMessageWithLevel (reconfigure (New out opts) ms) \<longrightarrow>
        slogger (reconfigure (New out opts) ms)
          = levelPrefixHandler (embedded (slogger (reconfigure (New out opts) ms)))
        \<and> do_call sp (reconfigure (New out opts) ms) ctx c w
          = slog_Log (embedded (slogger (reconfigure (New out opts) ms))) ctx (call_level c)
              (''- '' @ Level_String (call_level c) @ '' - '' @ call_message sp c)
              (call_args c) w)
   \<and> Level_String LevelDebug = ''DEBUG''
   \<and> Level_String LevelInfo = ''INFO''
   \<and> Level_String LevelWarn = ''WARN''
   \<and> Level_String LevelError = ''ERROR''
   \<and> Level_String (LevelError + 4) = ''ERROR+4''"
proof -
  have layer: "slogger (reconfigure (New out opts) ms)
          = levelPrefixHandler (embedded (slogger (reconfigure (New out opts) ms)))"
    if "shouldPreficMessageWithLevel (reconfigure (New out opts) ms)"
    using prefix_layer_New that by (rule prefix_layer_reconfigure)
  have call: "do_call sp (reconfigure (New out opts) ms) ctx c w
          = slog_Log (embedded (slogger (reconfigure (New out opts) ms))) ctx (call_level c)
              (''- '' @ Level_String (call_level c) @ '' - '' @ call_message sp c)
              (call_args c) w"
    if "shouldPreficMessageWithLevel (reconfigure (New out opts) ms)"
    unfolding do_call_slog_Log
    by (subst layer [OF that]) (rule slog_Log_levelPrefixHandler)
  from layer call show ?thesis by (simp add: Level_String_names)
qed

theorem prefix_decoration_witness:
  "shouldPreficMessageWithLevel (reconfigure (New 0 (Some prefix_opts)) [MSetOutput 1])
   \<and> do_call no_sprintf (reconfigure (New 0 (Some prefix_opts)) [MSetOutput 1]) 0
        (CFatal ''boom'' [AString ''code'', AInt 7]) no_output
      = no_output(1 := [Entry JSONEncoding
          \<lparr>Level = 12, Message = ''- ERROR+4 - boom'', Attrs = [(''code'', AInt 7)]\<rparr>])"
proof -
  have p: "shouldPreficMessageWithLevel (reconfigure (New 0 (Some prefix_opts)) [MSetOutput 1])"
    by (simp add: reconfigure_def SetOutput_def fields_SetHandler)
      (simp add: New_def prefix_opts_def)
  have e: "embedded (slogger (reconfigure (New 0 (Some prefix_opts)) [MSetOutput 1]))
      = JSONHandler 1 (levelOnly LevelDebug)"
    by (simp add: reconfigure_def SetOutput_def slogger_SetHandler)
      (simp add: New_def prefix_opts_def newHandler_def)
  have n: "Level_String (LevelError + 4) = ''ERROR+4''"
    by (rule Level_String_names)
  from prefix_decoration [of _ _ _ _ 0 "Some prefix_opts" "[MSetOutput 1]" no_sprintf
      "CFatal ''boom'' [AString ''code'', AInt 7]"] p
  have "do_call no_sprintf (reconfigure (New 0 (Some prefix_opts)) [MSetOutput 1]) 0
        (CFatal ''boom'' [AString ''code'', AInt 7]) no_output
      = slog_Log (JSONHandler 1 (levelOnly LevelDebug)) 0 (LevelError + 4)
          (''- '' @ Level_String (LevelError + 4) @ '' - '' @ ''boom'')
          [AString ''code'', AInt 7] no_output"
    unfolding e by (simp del: do_call.simps)
  then show ?thesis
    unfolding n using p
    by (simp add: slog_Log_def minLevel_levelOnly LevelDebug_def LevelError_def no_output_def
        del: do_call.simps)
qed

text \<open>
  The name is the engine's, not the package's: a \<^verbatim>\<open>Fatal\<close> call under the prefix layer
  is decorated with ERROR+4, and not with FATAL.
\<close>

theorem prefix_decoration_counterexample:
  "Fatal (New 0 (Some prefix_opts)) 0 ''disk full'' [] no_output
     = no_output(0 := [Entry JSONEncoding
          \<lparr>Level = LevelError + 4, Message = ''- ERROR+4 - disk full'', Attrs = []\<rparr>])
   \<and> Fatal (New 0 (Some prefix_opts)) 0 ''disk full'' [] no_output
     \<noteq> no_output(0 := [Entry JSONEncoding
          \<lparr>Level = LevelError + 4, Message = ''- FATAL - disk full'', Attrs = []\<rparr>])"
proof -
  have a: "Fatal (New 0 (Some prefix_opts)) 0 ''disk full'' [] no_output
     = no_output(0 := [Entry JSONEncoding
          \<lparr>Level = LevelError + 4, Message = ''- ERROR+4 - disk full'', Attrs = []\<rparr>])"
    by (simp add: New_def prefix_opts_def Let_def newHandler_def levelOnly_def Fatal_def Log_def
        slog_Log_def minLevel_def Level_String_names LevelDebug_def
        HandlerTypeText_def HandlerTypeJSON_def no_output_def)
      (simp add: LevelError_def)
  have b: "no_output(0 := [Entry JSONEncoding
          \<lparr>Level = LevelError + 4, Message = ''- ERROR+4 - disk full'', Attrs = []\<rparr>])
     \<noteq> no_output(0 := [Entry JSONEncoding
          \<lparr>Level = LevelError + 4, Message = ''- FATAL - disk full'', Attrs = []\<rparr>])"
  proof
    assume "no_output(0 := [Entry JSONEncoding
          \<lparr>Level = LevelError + 4, Message = ''- ERROR+4 - disk full'', Attrs = []\<rparr>])
     = no_output(0 := [Entry JSONEncoding
          \<lparr>Level = LevelError + 4, Message = ''- FATAL - disk full'', Attrs = []\<rparr>])"
    then have "(no_output(0 := [Entry JSONEncoding
          \<lparr>Level = LevelError + 4, Message = ''- ERROR+4 - disk full'', Attrs = []\<rparr>])) 0
     = (no_output(0 := [Entry JSONEncoding
          \<lparr>Level = LevelError + 4, Message = ''- FATAL - disk full'', Attrs = []\<rparr>])) 0"
      by (rule arg_cong)
    then show False by simp
  qed
  show ?thesis unfolding a using b by simp
qed

lemma slog_Log_Enabled:
  "slog_Log h ctx l msg args w =
     (if Enabled h ctx l
      then Handle h ctx \<lparr>Level = l, Message = msg, Attrs = argsToAttrs args\<rparr> w
      else w)"
  by (simp add: slog_Log_def)

lemma Handle_builtin:
  "builtin h \<Longrightarrow> destination h = Some out \<Longrightarrow>
   \<exists>enc m. Handle h ctx r w
      = w(out := w out @ [Entry enc \<lparr>Level = Level r, Message = m, Attrs = Attrs r\<rparr>])"
proof (induction h arbitrary: r)
  case (TextHandler x1 x2)
  then have "Handle (TextHandler x1 x2) ctx r w
      = w(out := w out @ [Entry TextEncoding
            \<lparr>Level = Level r, Message = Message r, Attrs = Attrs r\<rparr>])"
    by (cases r) simp
  then show ?case by blast
next
  case (JSONHandler x1 x2)
  then have "Handle (JSONHandler x1 x2) ctx r w
      = w(out := w out @ [Entry JSONEncoding
            \<lparr>Level = Level r, Message = Message r, Attrs = Attrs r\<rparr>])"
    by (cases r) simp
  then show ?case by blast
next
  case (levelPrefixHandler h)
  from levelPrefixHandler.prems have b: "builtin h" and d: "destination h = Some out"
    by simp_all
  from levelPrefixHandler.IH [OF b d,
      of "r\<lparr>Message := ''- '' @ Level_String (Level r) @ '' - '' @ Message r\<rparr>"]
  show ?case by simp
next
  case (OtherHandler x1 x2)
  then show ?case by simp
qed

lemma builtin_destination: "builtin h \<Longrightarrow> \<exists>out. destination h = Some out"
  by (induction h) simp_all

lemma Enabled_builtin_mono:
  "builtin h \<Longrightarrow> Enabled h ctx l \<Longrightarrow> l \<le> l' \<Longrightarrow> Enabled h ctx l'"
  by (induction h) simp_all

text \<open>
  C8. \<^verbatim>\<open>Fatal\<close> and \<^verbatim>\<open>Fatalf\<close> log at ERROR plus four, above ERROR, and do what every
  leveled call does: they return, having handed the handler one record at that level
  if it is enabled there and nothing otherwise. On a fresh Logger, and on any Logger
  whose level is at most ERROR plus four after \<^verbatim>\<open>SetOutput\<close>, that is exactly one
  record at level ERROR plus four appended to the writer; above that level nothing is
  written. With a handler of the engine every leveled call appends one record to the
  handler's writer or leaves the world as it was, and a handler that lets ERROR
  through lets \<^verbatim>\<open>Fatal\<close> through.
\<close>

theorem Fatal_is_a_label:
  "Fatal logger ctx msg args w = Log logger ctx (LevelError + 4) msg args w
   \<and> Fatalf sp logger ctx format args w = Logf sp logger ctx (LevelError + 4) format args w
   \<and> LevelError < LevelError + 4
   \<and> Fatal logger ctx msg args w
       = (if Enabled (slogger logger) ctx (LevelError + 4)
          then Handle (slogger logger) ctx
                 \<lparr>Level = LevelError + 4, Message = msg, Attrs = argsToAttrs args\<rparr> w
          else w)
   \<and> Fatalf sp logger ctx format args w
       = (if Enabled (slogger logger) ctx (LevelError + 4)
          then Handle (slogger logger) ctx
                 \<lparr>Level = LevelError + 4, Message = sp format args, Attrs = []\<rparr> w
          else w)
   \<and> Fatal (New out None) ctx msg args w
       = w(out := w out @ [Entry TextEncoding
            \<lparr>Level = LevelError + 4, Message = msg, Attrs = argsToAttrs args\<rparr>])
   \<and> Fatalf sp (New out None) ctx format args w
       = w(out := w out @ [Entry TextEncoding
            \<lparr>Level = LevelError + 4, Message = sp format args, Attrs = []\<rparr>])
   \<and> (level logger \<le> LevelError + 4 \<longrightarrow>
        Fatal (SetOutput logger out) ctx msg args w
          = w(out := w out @ [Entry (encodingOf (handlerType logger))
               \<lparr>Level = LevelError + 4,
                Message = decorated (shouldPreficMessageWithLevel logger) (LevelError + 4) msg,
                Attrs = argsToAttrs args\<rparr>])
        \<and> Fatalf sp (SetOutput logger out) ctx format args w
          = w(out := w out @ [Entry (encodingOf (handlerType logger))
               \<lparr>Level = LevelError + 4,
                Message = decorated (shouldPreficMessageWithLevel logger) (LevelError + 4)
                            (sp format args),
                Attrs = []\<rparr>]))
   \<and> (LevelError + 4 < level logger \<longrightarrow>
        Fatal (SetOutput logger out) ctx msg args w = w
        \<and> Fatalf sp (SetOutput logger out) ctx format args w = w)
   \<and> (builtin (slogger logger) \<longrightarrow>
        (\<exists>dest. destination (slogger logger) = Some dest
          \<and> (if Enabled (slogger logger) ctx (call_level c)
              then \<exists>enc m. do_call sp logger ctx c w
                    = w(dest := w dest @ [Entry enc \<lparr>Level = call_level c, Message = m,
                                                    Attrs = argsToAttrs (call_args c)\<rparr>])
              else do_call sp logger ctx c w = w)))
   \<and> (builtin (slogger logger) \<and> Enabled (slogger logger) ctx LevelError \<longrightarrow>
        Enabled (slogger logger) ctx (LevelError + 4))"
proof -
  have defs: "Fatal logger ctx msg args w = Log logger ctx (LevelError + 4) msg args w"
    "Fatalf sp logger ctx format args w = Logf sp logger ctx (LevelError + 4) format args w"
    by (simp_all add: Fatal_def Fatalf_def)
  have exact: "Fatal logger ctx msg args w
       = (if Enabled (slogger logger) ctx (LevelError + 4)
          then Handle (slogger logger) ctx
                 \<lparr>Level = LevelError + 4, Message = msg, Attrs = argsToAttrs args\<rparr> w
          else w)"
    "Fatalf sp logger ctx format args w
       = (if Enabled (slogger logger) ctx (LevelError + 4)
          then Handle (slogger logger) ctx
                 \<lparr>Level = LevelError + 4, Message = sp format args, Attrs = []\<rparr> w
          else w)"
    by (simp_all add: Fatal_def Fatalf_def Log_def Logf_def slog_Log_def)
  have fresh: "Fatal (New out None) ctx msg args w
       = w(out := w out @ [Entry TextEncoding
            \<lparr>Level = LevelError + 4, Message = msg, Attrs = argsToAttrs args\<rparr>])"
    "Fatalf sp (New out None) ctx format args w
       = w(out := w out @ [Entry TextEncoding
            \<lparr>Level = LevelError + 4, Message = sp format args, Attrs = []\<rparr>])"
    by (simp_all add: Fatal_def Fatalf_def Log_def Logf_def slog_Log_def New_def
        DefaultOptions_def Let_def newHandler_def minLevel_def LevelInfo_def LevelError_def
        HandlerTypeText_def HandlerTypeJSON_def)
  have plain: "Fatal logger' ctx msg args w = do_call sp logger' ctx (CFatal msg args) w"
    and formatted: "Fatalf sp logger' ctx format args w
      = do_call sp logger' ctx (CFatalf format args) w" for logger'
    by simp_all
  have above: "Fatal (SetOutput logger out) ctx msg args w
          = w(out := w out @ [Entry (encodingOf (handlerType logger))
               \<lparr>Level = LevelError + 4,
                Message = decorated (shouldPreficMessageWithLevel logger) (LevelError + 4) msg,
                Attrs = argsToAttrs args\<rparr>])"
    "Fatalf sp (SetOutput logger out) ctx format args w
          = w(out := w out @ [Entry (encodingOf (handlerType logger))
               \<lparr>Level = LevelError + 4,
                Message = decorated (shouldPreficMessageWithLevel logger) (LevelError + 4)
                            (sp format args),
                Attrs = []\<rparr>])"
    if "level logger \<le> LevelError + 4"
    unfolding plain formatted do_call_SetOutput using that
    by (simp_all add: call_entry_def)
  have below: "Fatal (SetOutput logger out) ctx msg args w = w"
    "Fatalf sp (SetOutput logger out) ctx format args w = w"
    if "LevelError + 4 < level logger"
    unfolding plain formatted do_call_SetOutput using that by simp_all
  have one_write: "\<exists>dest. destination (slogger logger) = Some dest
          \<and> (if Enabled (slogger logger) ctx (call_level c)
              then \<exists>enc m. do_call sp logger ctx c w
                    = w(dest := w dest @ [Entry enc \<lparr>Level = call_level c, Message = m,
                                                    Attrs = argsToAttrs (call_args c)\<rparr>])
              else do_call sp logger ctx c w = w)"
    if b: "builtin (slogger logger)"
  proof -
    from builtin_destination [OF b] obtain dest
      where d: "destination (slogger logger) = Some dest" ..
    from Handle_builtin [OF b d, of ctx
        "\<lparr>Level = call_level c, Message = call_message sp c,
          Attrs = argsToAttrs (call_args c)\<rparr>" w]
    have "if Enabled (slogger logger) ctx (call_level c)
              then \<exists>enc m. do_call sp logger ctx c w
                    = w(dest := w dest @ [Entry enc \<lparr>Level = call_level c, Message = m,
                                                    Attrs = argsToAttrs (call_args c)\<rparr>])
              else do_call sp logger ctx c w = w"
      unfolding do_call_slog_Log slog_Log_Enabled by simp
    with d show ?thesis by blast
  qed
  have mono: "Enabled (slogger logger) ctx (LevelError + 4)"
    if "builtin (slogger logger) \<and> Enabled (slogger logger) ctx LevelError"
    using that by (auto intro: Enabled_builtin_mono)
  have order: "LevelError < LevelError + 4" by simp
  from defs order exact fresh above below one_write mono show ?thesis by blast
qed

theorem Fatal_is_a_label_witness:
  "level (New 0 None) \<le> LevelError + 4
   \<and> Fatalf no_sprintf (SetOutput (New 0 None) 1) 0 ''boom %d'' [AInt 3] no_output
      = no_output(1 := [Entry TextEncoding \<lparr>Level = 12, Message = ''boom %d'', Attrs = []\<rparr>])
   \<and> Fatal (SetOutput (New 0 None) 1) 0 ''boom'' [AString ''code'', AInt 3] no_output
      = no_output(1 := [Entry TextEncoding
           \<lparr>Level = 12, Message = ''boom'', Attrs = [(''code'', AInt 3)]\<rparr>])
   \<and> LevelError + 4 < level (SetLevel (New 0 None) 16)
   \<and> Fatalf no_sprintf (SetOutput (SetLevel (New 0 None) 16) 1) 0 ''boom %d'' [AInt 3] no_output
      = no_output
   \<and> Fatal (SetOutput (SetLevel (New 0 None) 16) 1) 0 ''boom'' [] no_output = no_output
   \<and> builtin (slogger (New 0 None))
   \<and> Enabled (slogger (New 0 None)) 0 LevelError
   \<and> Enabled (slogger (New 0 None)) 0 (LevelError + 4)
   \<and> destination (slogger (New 0 None)) = Some 0
   \<and> do_call no_sprintf (New 0 None) 0 (CFatalf ''boom %d'' [AInt 3]) no_output
      = no_output(0 := [Entry TextEncoding \<lparr>Level = 12, Message = ''boom %d'', Attrs = []\<rparr>])"
proof -
  have s: "slogger (New 0 None)
      = TextHandler 0 \<lparr>ho_AddSource = False, ho_Level = Some LevelInfo,
                       ho_ReplaceAttr = Some (\<lambda>groups a. a)\<rparr>"
    by (simp add: New_def DefaultOptions_def Let_def newHandler_def
        HandlerTypeText_def HandlerTypeJSON_def)
  have f: "level (New 0 None) = LevelInfo" "handlerType (New 0 None) = HandlerTypeText"
    "shouldPreficMessageWithLevel (New 0 None) = False"
    by (simp_all add: New_def DefaultOptions_def)
  have g: "level (SetLevel (New 0 None) 16) = 16"
    "handlerType (SetLevel (New 0 None) 16) = HandlerTypeText"
    "shouldPreficMessageWithLevel (SetLevel (New 0 None) 16) = False"
    by (simp_all add: SetLevel_def Let_def fields_SetHandler f)
  have lo: "level (New 0 None) \<le> LevelError + 4"
    by (simp add: f LevelInfo_def LevelError_def)
  have hi: "LevelError + 4 < level (SetLevel (New 0 None) 16)"
    by (simp add: g LevelError_def)
  have b: "builtin (slogger (New 0 None))" by (simp add: s)
  have en: "Enabled (slogger (New 0 None)) 0 LevelError"
    by (simp add: s minLevel_def LevelInfo_def LevelError_def)
  note t1 = Fatal_is_a_label [where logger = "New 0 None" and ctx = 0 and w = no_output
      and sp = no_sprintf and out = 1 and format = "''boom %d''" and args = "[AInt 3]"
      and c = "CFatalf ''boom %d'' [AInt 3]"]
  note t2 = Fatal_is_a_label [where logger = "New 0 None" and ctx = 0 and w = no_output
      and sp = no_sprintf and out = 1 and msg = "''boom''"
      and args = "[AString ''code'', AInt 3]"]
  note t3 = Fatal_is_a_label [where logger = "SetLevel (New 0 None) 16" and ctx = 0
      and w = no_output and sp = no_sprintf and out = 1 and msg = "''boom''" and args = "[]"
      and format = "''boom %d''"]
  note t4 = Fatal_is_a_label [where logger = "SetLevel (New 0 None) 16" and ctx = 0
      and w = no_output and sp = no_sprintf and out = 1 and args = "[AInt 3]"
      and format = "''boom %d''"]
  have c1: "Fatalf no_sprintf (SetOutput (New 0 None) 1) 0 ''boom %d'' [AInt 3] no_output
      = no_output(1 := [Entry TextEncoding \<lparr>Level = 12, Message = ''boom %d'', Attrs = []\<rparr>])"
    using t1 lo
    by (simp add: f encodingOf_def decorated_def no_sprintf_def no_output_def LevelError_def
        HandlerTypeText_def HandlerTypeJSON_def)
  have c2: "Fatal (SetOutput (New 0 None) 1) 0 ''boom'' [AString ''code'', AInt 3] no_output
      = no_output(1 := [Entry TextEncoding
           \<lparr>Level = 12, Message = ''boom'', Attrs = [(''code'', AInt 3)]\<rparr>])"
    using t2 lo
    by (simp add: f encodingOf_def decorated_def no_output_def LevelError_def
        HandlerTypeText_def HandlerTypeJSON_def)
  have c3: "Fatal (SetOutput (SetLevel (New 0 None) 16) 1) 0 ''boom'' [] no_output = no_output"
    using t3 hi by simp
  have c4: "Fatalf no_sprintf (SetOutput (SetLevel (New 0 None) 16) 1) 0 ''boom %d'' [AInt 3]
      no_output = no_output"
    using t4 hi by simp
  have c5: "Enabled (slogger (New 0 None)) 0 (LevelError + 4)"
    using t1 b en by simp
  have c6: "destination (slogger (New 0 None)) = Some 0" by (simp add: s)
  have c7: "do_call no_sprintf (New 0 None) 0 (CFatalf ''boom %d'' [AInt 3]) no_output
      = no_output(0 := [Entry TextEncoding \<lparr>Level = 12, Message = ''boom %d'', Attrs = []\<rparr>])"
    by (simp add: Fatalf_def Logf_def slog_Log_def s minLevel_def no_sprintf_def no_output_def
        LevelInfo_def LevelError_def)
  from lo c1 c2 hi c4 c3 b en c5 c6 c7 show ?thesis by blast
qed

text \<open>
  C9. \<^verbatim>\<open>New\<close> returns a Logger for every writer and every options value, nil included.
  Without options the Logger has threshold INFO and the text handler on the given
  writer, and an INFO call writes a text record there. A custom handler in the options
  becomes the Logger's handler (under the prefix layer when that is asked for), whatever
  the handler type says; without one the handler is the engine's, on the given writer.
\<close>

theorem New_total_defaults:
  "level (New out None) = LevelInfo
   \<and> GetLevel (New out None) = LevelInfo
   \<and> GetHandlerType (New out None) = HandlerTypeText
   \<and> writerType (New out None) = out
   \<and> embedded (slogger (New out None)) = TextHandler out
        \<lparr>ho_AddSource = False, ho_Level = Some LevelInfo, ho_ReplaceAttr = Some (\<lambda>groups a. a)\<rparr>
   \<and> Info (New out None) ctx msg args w
       = w(out := w out @ [Entry TextEncoding
            \<lparr>Level = LevelInfo, Message = msg, Attrs = argsToAttrs args\<rparr>])
   \<and> (opt_CustomHandler given = Some h \<longrightarrow>
        slogger (New out (Some given))
          = (if opt_AddLevelPrefix given then levelPrefixHandler h else h)
        \<and> Log (New out (Some given)) ctx l msg args w
          = slog_Log h ctx l (decorated (opt_AddLevelPrefix given) l msg) args w)
   \<and> (opt_CustomHandler given = None \<longrightarrow>
        builtin (slogger (New out (Some given)))
        \<and> destination (slogger (New out (Some given))) = Some out
        \<and> level (New out (Some given)) = opt_Level given
        \<and> handlerType (New out (Some given)) = opt_HandlerType given)"
  by (simp add: New_def DefaultOptions_def Let_def newHandler_def GetLevel_def GetHandlerType_def
      HandlerTypeText_def HandlerTypeJSON_def Info_def Log_def slog_Log_def minLevel_def
      decorated_def)

theorem New_total_defaults_witness:
  "opt_CustomHandler (plain_opts\<lparr>opt_CustomHandler := Some (JSONHandler 5 (levelOnly LevelWarn))\<rparr>)
     = Some (JSONHandler 5 (levelOnly LevelWarn))
   \<and> slogger (New 0 (Some (plain_opts\<lparr>opt_CustomHandler := Some (JSONHandler 5 (levelOnly LevelWarn))\<rparr>)))
     = JSONHandler 5 (levelOnly LevelWarn)
   \<and> opt_CustomHandler plain_opts = None
   \<and> builtin (slogger (New 0 (Some plain_opts)))
   \<and> destination (slogger (New 0 (Some plain_opts))) = Some 0"
  using New_total_defaults [of 0 _ _ _ _
      "plain_opts\<lparr>opt_CustomHandler := Some (JSONHandler 5 (levelOnly LevelWarn))\<rparr>"
      "JSONHandler 5 (levelOnly LevelWarn)"]
    New_total_defaults [of 0 _ _ _ _ plain_opts]
  by (simp add: plain_opts_def)

text \<open>
  The \<^verbatim>\<open>Logf\<close> that calls \<^verbatim>\<open>fmt.Sprintf\<close> hands the engine the rendered message and
  no arguments, so the record carries no attributes of the call.
\<close>

lemma Logf_prerenders:
  "Logf sp logger ctx l format args w = Log logger ctx l (sp format args) [] w
   \<and> (Logf sp logger ctx l format args w = w
        \<or> Logf sp logger ctx l format args w
            = Handle (slogger logger) ctx
                \<lparr>Level = l, Message = sp format args, Attrs = []\<rparr> w)"
  by (simp add: Logf_def Log_def slog_Log_def)

text \<open>
  C7. The \<^verbatim>\<open>Logf\<close> of the other revision does not render: on the call of the README,
  \<^verbatim>\<open>Infof(ctx, "User %s logged in", "john@example.com")\<close>, the message is the format
  string itself and the argument becomes an attribute under \<^verbatim>\<open>!BADKEY\<close>.
\<close>

theorem Logf_passthrough_not_rendered:
  "Infof_passthrough (New 0 (Some plain_opts)) 0 ''User %s logged in''
      [AString ''john@example.com''] no_output
     = no_output(0 := [Entry TextEncoding
         \<lparr>Level = LevelInfo, Message = ''User %s logged in'',
          Attrs = [(''!BADKEY'', AString ''john@example.com'')]\<rparr>])"
  by (simp add: Infof_passthrough_def Logf_passthrough_def New_def plain_opts_def Let_def
      newHandler_def slog_Log_def minLevel_def levelOnly_def badKey_def no_output_def
      HandlerTypeText_def HandlerTypeJSON_def)

section \<open>Properties of the context carrier\<close>

lemma Value_append:
  "c < length h \<Longrightarrow> Value (h @ ns) c key = Value h c key"
proof (induction h c key rule: Value.induct)
  case (1 h c key)
  show ?case
  proof (cases "h ! c")
    case emptyCtx
    with "1.prems" show ?thesis
      by (simp add: Value.simps [of "h @ ns"] Value.simps [of h] nth_append)
  next
    case (valueCtx parent k v)
    show ?thesis
    proof (cases "k \<noteq> key \<and> parent < c")
      case True
      with "1.prems" valueCtx have "Value (h @ ns) parent key = Value h parent key"
        by (intro "1.IH") auto
      with True "1.prems" valueCtx show ?thesis
        by (simp add: Value.simps [of "h @ ns" c] Value.simps [of h c] nth_append)
    next
      case False
      with "1.prems" valueCtx show ?thesis
        by (auto simp add: Value.simps [of "h @ ns" c] Value.simps [of h c] nth_append)
    qed
  qed
qed

lemma Value_fresh:
  "Value (h @ [valueCtx parent key v]) (length h) key = Some v"
  by (simp add: Value.simps [of _ "length h"])

lemma Value_absent:
  "key \<notin> set (chain_keys h c) \<Longrightarrow> Value h c key = None"
proof (induction h c key rule: Value.induct)
  case (1 h c key)
  show ?case
  proof (cases "c < length h")
    case False
    then show ?thesis by (simp add: Value.simps [of h c])
  next
    case True
    show ?thesis
    proof (cases "h ! c")
      case emptyCtx
      with True show ?thesis by (simp add: Value.simps [of h c])
    next
      case (valueCtx parent k v)
      with True "1.prems" have ne: "k \<noteq> key"
        by (auto simp add: chain_keys.simps [of h c])
      show ?thesis
      proof (cases "parent < c")
        case False
        with True valueCtx ne show ?thesis by (simp add: Value.simps [of h c])
      next
        case lt: True
        with True valueCtx "1.prems" have "key \<notin> set (chain_keys h parent)"
          by (simp add: chain_keys.simps [of h c])
        with True valueCtx ne lt have "Value h parent key = None"
          by (intro "1.IH") auto
        with True valueCtx ne lt show ?thesis by (simp add: Value.simps [of h c])
      qed
    qed
  qed
qed

lemma FromContext_WithLogger:
  "FromContext (fst (WithLogger h ctx logger)) (snd (WithLogger h ctx logger)) = logger"
  by (simp add: FromContext_def WithLogger_def context_WithValue_def Value_fresh)

lemma FromContext_older:
  "c < length h \<Longrightarrow> FromContext (fst (WithLogger h ctx logger)) c = FromContext h c"
  by (simp add: FromContext_def WithLogger_def context_WithValue_def Value_append)

lemma FromContext_absent:
  "LoggerKey \<notin> set (chain_keys h c) \<Longrightarrow> FromContext h c = None"
  by (simp add: FromContext_def Value_absent)

text \<open>
  C6. Reading the logger back from the context that \<^verbatim>\<open>WithLogger\<close> derives gives the
  very reference that was stored; a context with no association for the logger key on
  its way to the root gives nil; and the derivation leaves every existing node, the parent among them,
  as it was, so \<^verbatim>\<open>FromContext\<close> on it answers as before.
\<close>

theorem WithLogger_FromContext:
  "FromContext (fst (WithLogger h ctx logger)) (snd (WithLogger h ctx logger)) = logger
   \<and> (LoggerKey \<notin> set (chain_keys h c) \<longrightarrow> FromContext h c = None)
   \<and> (c < length h \<longrightarrow>
        fst (WithLogger h ctx logger) ! c = h ! c
        \<and> FromContext (fst (WithLogger h ctx logger)) c = FromContext h c)"
  by (simp add: FromContext_WithLogger FromContext_older FromContext_absent)
    (simp add: WithLogger_def context_WithValue_def nth_append)

theorem WithLogger_FromContext_witness:
  "FromContext (fst (WithLogger two_nodes 1 (Some 7))) (snd (WithLogger two_nodes 1 (Some 7)))
     = Some 7
   \<and> chain_keys two_nodes 1 = [ForeignKey 3]
   \<and> FromContext two_nodes 1 = None
   \<and> (1::nat) < length two_nodes
   \<and> fst (WithLogger two_nodes 1 (Some 7)) ! 1 = valueCtx 0 (ForeignKey 3) (ForeignVal 9)
   \<and> FromContext (fst (WithLogger two_nodes 1 (Some 7))) 1 = None"
proof -
  have k: "chain_keys two_nodes 1 = [ForeignKey 3]"
    by (simp add: two_nodes_def chain_keys.simps [of _ "Suc 0"] chain_keys.simps [of _ 0])
  have n: "LoggerKey \<notin> set (chain_keys two_nodes 1)"
    unfolding k by (simp add: LoggerKey_def)
  have l: "(1::nat) < length two_nodes" by (simp add: two_nodes_def)
  from WithLogger_FromContext [of two_nodes 1 "Some 7" 1] n l k
  show ?thesis by (simp add: two_nodes_def)
qed

text \<open>
  C10. Storing a nil logger: the association is there, as a typed nil, and
  \<^verbatim>\<open>FromContext\<close> returns nil, the answer it gives on a context with no association.
\<close>

theorem FromContext_nil_logger:
  "Value (fst (WithLogger h ctx None)) (snd (WithLogger h ctx None)) LoggerKey
       = Some (LoggerVal None)
   \<and> FromContext (fst (WithLogger h ctx None)) (snd (WithLogger h ctx None)) = None
   \<and> FromContext (fst (WithLogger h ctx None)) (snd (WithLogger h ctx None))
       = FromContext [emptyCtx] 0"
  by (simp add: FromContext_WithLogger)
    (simp add: FromContext_def WithLogger_def context_WithValue_def Value_fresh
      Value.simps [of "[emptyCtx]" 0])

end
